theory Spec2Isabelle
  imports Main
begin

section \<open>Characters and text\<close>

text \<open>
  The two scripts \<^verbatim>\<open>1_SCBdirect_estimate.py\<close> and \<^verbatim>\<open>2_SCBpopDensity.py\<close> work on
  Python \<^verbatim>\<open>str\<close> values. A text is modelled as a \<open>string\<close> whose characters are the
  code points below 256. In that range \<^verbatim>\<open>\d\<close> of Python's \<^verbatim>\<open>re\<close> matches the ten
  ASCII digits, and \<^verbatim>\<open>\s\<close> and \<^verbatim>\<open>str.strip()\<close> share one whitespace class.
\<close>

definition LF :: char where
  "LF = CHR 0x0A"

definition is_digit :: "char \<Rightarrow> bool" where
  "is_digit c = (c \<in> set ''0123456789'')"

definition is_space :: "char \<Rightarrow> bool" where
  "is_space c = (c \<in> set [CHR 0x09, CHR 0x0A, CHR 0x0B, CHR 0x0C, CHR 0x0D,
                            CHR 0x1C, CHR 0x1D, CHR 0x1E, CHR 0x1F, CHR 0x20,
                            CHR 0x85, CHR 0xA0])"

text \<open>
  \<^verbatim>\<open>str.lower()\<close> on one code point below 256: the ASCII capitals and the capitals of
  the Latin-1 block (U+00C0 to U+00DE without the multiplication sign) have a lower-case
  partner 32 places up; every other character is kept.
\<close>

definition upper_chars :: string where
  "upper_chars = ''ABCDEFGHIJKLMNOPQRSTUVWXYZ'' @
     [CHR 0xC0, CHR 0xC1, CHR 0xC2, CHR 0xC3, CHR 0xC4, CHR 0xC5,
      CHR 0xC6, CHR 0xC7, CHR 0xC8, CHR 0xC9, CHR 0xCA, CHR 0xCB,
      CHR 0xCC, CHR 0xCD, CHR 0xCE, CHR 0xCF, CHR 0xD0, CHR 0xD1,
      CHR 0xD2, CHR 0xD3, CHR 0xD4, CHR 0xD5, CHR 0xD6, CHR 0xD8,
      CHR 0xD9, CHR 0xDA, CHR 0xDB, CHR 0xDC, CHR 0xDD, CHR 0xDE]"

definition lower_chars :: string where
  "lower_chars = ''abcdefghijklmnopqrstuvwxyz'' @
     [CHR 0xE0, CHR 0xE1, CHR 0xE2, CHR 0xE3, CHR 0xE4, CHR 0xE5,
      CHR 0xE6, CHR 0xE7, CHR 0xE8, CHR 0xE9, CHR 0xEA, CHR 0xEB,
      CHR 0xEC, CHR 0xED, CHR 0xEE, CHR 0xEF, CHR 0xF0, CHR 0xF1,
      CHR 0xF2, CHR 0xF3, CHR 0xF4, CHR 0xF5, CHR 0xF6, CHR 0xF8,
      CHR 0xF9, CHR 0xFA, CHR 0xFB, CHR 0xFC, CHR 0xFD, CHR 0xFE]"

definition lower_char :: "char \<Rightarrow> char" where
  "lower_char c = (case map_of (zip upper_chars lower_chars) c of Some l \<Rightarrow> l | None \<Rightarrow> c)"

definition lower :: "string \<Rightarrow> string" where
  "lower s = map lower_char s"

subsection \<open>The three steps of the County cleaning\<close>

text \<open>
  \<^verbatim>\<open>.str.replace(r"^\d+\s+", "", regex=True)\<close>: the pattern can only match at
  position 0. Both quantifiers are greedy, and since no character is a digit and a
  whitespace at once, backtracking never changes the match: all leading digits, then
  all whitespace that follows, at least one of each.
\<close>

definition sub_leading_code :: "string \<Rightarrow> string" where
  "sub_leading_code s =
     (let ds = takeWhile is_digit s;
          r = dropWhile is_digit s;
          ws = takeWhile is_space r
      in if ds \<noteq> [] \<and> ws \<noteq> [] then dropWhile is_space r else s)"

text \<open>
  \<^verbatim>\<open>\scounty$\<close> matched at the head of \<open>s\<close>: one whitespace, the six letters, and the
  end of the text; Python's \<^verbatim>\<open>$\<close> (no MULTILINE flag) also matches just before a final
  newline. \<open>ic\<close> is \<^verbatim>\<open>flags=re.IGNORECASE\<close>.
\<close>

definition match_county :: "bool \<Rightarrow> string \<Rightarrow> bool" where
  "match_county ic s =
     (case s of
        [] \<Rightarrow> False
      | c # rest \<Rightarrow>
          is_space c
          \<and> (if ic then lower (take 6 rest) else take 6 rest) = ''county''
          \<and> (drop 6 rest = [] \<or> drop 6 rest = [LF]))"

text \<open>
  \<^verbatim>\<open>.str.replace(r"\scounty$", "", regex=True)\<close>: \<^verbatim>\<open>re.sub\<close> scans from the left and
  deletes the match; what is left after a match is empty or one newline, where no further
  match fits.
\<close>

fun sub_county :: "bool \<Rightarrow> string \<Rightarrow> string" where
  "sub_county ic [] = []"
| "sub_county ic (c # cs) =
     (if match_county ic (c # cs) then drop 7 (c # cs) else c # sub_county ic cs)"

text \<open>\<^verbatim>\<open>.str.strip()\<close>\<close>

definition strip :: "string \<Rightarrow> string" where
  "strip s = rev (dropWhile is_space (rev (dropWhile is_space s)))"

text \<open>The chain of lines 47-52 (direct estimate) and 39-44 (population density) on one name.\<close>

definition clean_name :: "bool \<Rightarrow> string \<Rightarrow> string" where
  "clean_name ic s = strip (sub_county ic (sub_leading_code s))"

section \<open>Exceptions\<close>

text \<open>
  Every exception that the two scripts can let escape is a value. None is caught, so the
  first one ends the run. \<open>FileNotFoundError\<close> carries the path that could not be
  opened; \<open>KeyError\<close> is the missing key of a \<^verbatim>\<open>dict\<close>;
  \<open>LabelsNotInIndex\<close> is the \<^verbatim>\<open>KeyError\<close> that pandas raises for column labels that
  a selection does not find, with those labels.
\<close>

datatype error =
    FileNotFoundError string
  | JSONDecodeError
  | KeyError string
  | TypeError
  | AttributeError
  | ConnectionError
  | HTTPError nat
  | ParserError
  | LabelsNotInIndex "string list"

text \<open>
  The scripts define no exception classes of their own. The three names below are the
  error taxonomy of the specification, read as a classification of the Python exceptions
  by the step that raises them: loading the configuration, the HTTP exchange, and the
  column selection.
\<close>

datatype error_class = ConfigError | TransportError | SchemaError | OtherError

fun error_class_of :: "error \<Rightarrow> error_class" where
  "error_class_of (FileNotFoundError p) =
     (if p = ''data/directEstimate.json'' \<or> p = ''data/popdensity.json'' then ConfigError
      else OtherError)"
| "error_class_of JSONDecodeError = ConfigError"
| "error_class_of (KeyError k) = ConfigError"
| "error_class_of TypeError = ConfigError"
| "error_class_of ConnectionError = TransportError"
| "error_class_of (HTTPError st) = TransportError"
| "error_class_of (LabelsNotInIndex ls) = SchemaError"
| "error_class_of AttributeError = OtherError"
| "error_class_of ParserError = OtherError"

definition and_then :: "error + 'a \<Rightarrow> ('a \<Rightarrow> error + 'b) \<Rightarrow> error + 'b" where
  "and_then r f = (case r of Inl e \<Rightarrow> Inl e | Inr x \<Rightarrow> f x)"

section \<open>JSON values and the configuration\<close>

text \<open>
  What \<^verbatim>\<open>json.load\<close> returns. An object is a \<^verbatim>\<open>dict\<close>, read through \<open>map_of\<close>; a
  number is kept by its literal, since the scripts never compute with one.
\<close>

datatype json =
    JNull
  | JBool bool
  | JNum string
  | JStr string
  | JArr "json list"
  | JObj "(string \<times> json) list"

text \<open>\<^verbatim>\<open>v[key]\<close> with a string key\<close>

fun getitem :: "json \<Rightarrow> string \<Rightarrow> error + json" where
  "getitem (JObj kvs) k = (case map_of kvs k of Some v \<Rightarrow> Inr v | None \<Rightarrow> Inl (KeyError k))"
| "getitem v k = Inl TypeError"

text \<open>\<^verbatim>\<open>v.get(key, default)\<close>: only a \<^verbatim>\<open>dict\<close> has the method.\<close>

fun get_default :: "json \<Rightarrow> string \<Rightarrow> json \<Rightarrow> error + json" where
  "get_default (JObj kvs) k d = (case map_of kvs k of Some v \<Rightarrow> Inr v | None \<Rightarrow> Inr d)"
| "get_default v k d = Inl AttributeError"

text \<open>\<^verbatim>\<open>v.lower()\<close>: only a \<^verbatim>\<open>str\<close> has the method.\<close>

fun lower_method :: "json \<Rightarrow> error + string" where
  "lower_method (JStr s) = Inr (lower s)"
| "lower_method v = Inl AttributeError"

text \<open>
  \<^verbatim>\<open>fmt = payload.get("response", {}).get("format", "").lower()\<close>
\<close>

definition response_format :: "json \<Rightarrow> error + string" where
  "response_format payload =
     and_then (get_default payload ''response'' (JObj []))
       (\<lambda>r. and_then (get_default r ''format'' (JStr [])) lower_method)"

section \<open>Tables\<close>

text \<open>
  A pandas \<^verbatim>\<open>DataFrame\<close> is its columns in order, each a label with its cells; labels
  may repeat. A cell is a text, a missing value, or a number or boolean, which is kept by
  the text that \<^verbatim>\<open>to_csv\<close> prints for it.
\<close>

datatype cell = Str string | Num string | NaN

type_synonym dataframe = "(string \<times> cell list) list"

text \<open>The label that a rename gives to the label \<open>l\<close>.\<close>

definition relabel :: "(string \<times> string) list \<Rightarrow> string \<Rightarrow> string" where
  "relabel m l = (case map_of m l of Some l' \<Rightarrow> l' | None \<Rightarrow> l)"

text \<open>\<^verbatim>\<open>df.rename(columns=m)\<close>: a label that is no key of \<open>m\<close> is kept, a key that is no label is ignored.\<close>

definition rename_columns :: "(string \<times> string) list \<Rightarrow> dataframe \<Rightarrow> dataframe" where
  "rename_columns m df = map (\<lambda>(l, col). (relabel m l, col)) df"

text \<open>
  \<^verbatim>\<open>df[[l1, l2, ...]]\<close>: every column that carries a requested label, in the order of
  the request; \<^verbatim>\<open>KeyError\<close> with the labels that no column carries.
\<close>

definition select_columns :: "string list \<Rightarrow> dataframe \<Rightarrow> error + dataframe" where
  "select_columns ls df =
     (let missing = filter (\<lambda>l. l \<notin> fst ` set df) ls
      in if missing \<noteq> [] then Inl (LabelsNotInIndex missing)
         else Inr (concat (map (\<lambda>l. filter (\<lambda>c. fst c = l) df) ls)))"

text \<open>
  The \<^verbatim>\<open>.str\<close> accessor of a column: pandas refuses it with \<^verbatim>\<open>AttributeError\<close> on a
  column of numbers or of missing values only; it accepts a column without cells and a
  column that holds a text.
\<close>

fun is_Str :: "cell \<Rightarrow> bool" where
  "is_Str (Str s) = True"
| "is_Str c = False"

definition str_accessor_ok :: "cell list \<Rightarrow> bool" where
  "str_accessor_ok col = (col = [] \<or> list_ex is_Str col)"

text \<open>A \<^verbatim>\<open>.str\<close> method on one cell: a cell that is no text comes out as missing.\<close>

fun str_cell :: "(string \<Rightarrow> string) \<Rightarrow> cell \<Rightarrow> cell" where
  "str_cell f (Str s) = Str (f s)"
| "str_cell f c = NaN"

definition str_method :: "(string \<Rightarrow> string) \<Rightarrow> cell list \<Rightarrow> error + cell list" where
  "str_method f col = (if str_accessor_ok col then Inr (map (str_cell f) col) else Inl AttributeError)"

text \<open>
  Lines 47-52 and 39-44: \<^verbatim>\<open>df_selected["County"]\<close> is a column when exactly one column
  carries the label; when several do it is a \<^verbatim>\<open>DataFrame\<close>, which has no \<^verbatim>\<open>.str\<close>. The
  three methods are applied in turn and the result is assigned back to the column.
\<close>

definition clean_column :: "bool \<Rightarrow> cell list \<Rightarrow> error + cell list" where
  "clean_column ic col =
     and_then (str_method sub_leading_code col)
       (\<lambda>c1. and_then (str_method (sub_county ic) c1) (str_method strip))"

definition clean_county :: "bool \<Rightarrow> dataframe \<Rightarrow> error + dataframe" where
  "clean_county ic df =
     (case filter (\<lambda>c. fst c = ''County'') df of
        [(l, col)] \<Rightarrow>
          and_then (clean_column ic col)
            (\<lambda>col'. Inr (map (\<lambda>c. if fst c = ''County'' then (fst c, col') else c) df))
      | _ \<Rightarrow> Inl AttributeError)"

subsection \<open>Writing a table\<close>

text \<open>
  \<^verbatim>\<open>df.to_csv(path, index=False)\<close>: a header record and one record per row, fields
  joined by commas, each record ended by a newline. A text field that holds a comma, a
  double quote or a line break is quoted, its quotes doubled; a missing value is the empty
  field.
\<close>

definition needs_quote :: "string \<Rightarrow> bool" where
  "needs_quote s = list_ex (\<lambda>c. c \<in> set [CHR '','', CHR 0x22, CHR 0x0A, CHR 0x0D]) s"

definition csv_field :: "string \<Rightarrow> string" where
  "csv_field s =
     (if needs_quote s
      then [CHR 0x22] @ concat (map (\<lambda>c. if c = CHR 0x22 then [c, c] else [c]) s) @ [CHR 0x22]
      else s)"

fun cell_text :: "cell \<Rightarrow> string" where
  "cell_text (Str s) = csv_field s"
| "cell_text (Num t) = t"
| "cell_text NaN = []"

fun join :: "string \<Rightarrow> string list \<Rightarrow> string" where
  "join sep [] = []"
| "join sep [x] = x"
| "join sep (x # y # ys) = x @ sep @ join sep (y # ys)"

definition records_text :: "string list \<Rightarrow> string" where
  "records_text rs = concat (map (\<lambda>r. r @ [LF]) rs)"

definition to_csv :: "dataframe \<Rightarrow> string" where
  "to_csv df =
     records_text
       (join '','' (map (csv_field \<circ> fst) df)
        # map (\<lambda>row. join '','' (map cell_text row)) (transpose (map snd df)))"


section \<open>The world of a run\<close>

text \<open>
  What a run reads from outside is the environment: what opening a path and
  \<^verbatim>\<open>json.load\<close> give (no file, no valid JSON, or a value), what the server answers to a
  \<^verbatim>\<open>POST\<close> (no answer, or a status code with a body), the table that
  \<^verbatim>\<open>pd.read_csv\<close> parses from a text, and what an f-string prints for a JSON value that is
  no string. pandas, requests and json are libraries outside the repository, so the
  parser and the server are parameters of a run.
\<close>

datatype config_file = Missing | Malformed | Parsed json

datatype http_result = ConnectionFailed | Response nat string

record env =
  config :: "string \<Rightarrow> config_file"
  post :: "string \<Rightarrow> json \<Rightarrow> http_result"
  read_csv :: "string \<Rightarrow> error + dataframe"
  py_str :: "json \<Rightarrow> string"

text \<open>
  What a run changes: the directories and files on disk, the lines printed, and the
  requests sent. The four messages of the scripts are \<open>SavedCsv p\<close> and \<open>SavedPx p\<close> (the
  success line naming the resolved path of \<open>p\<close>), \<open>NotRecognized\<close> (the warning line of the
  last branch) and \<open>RawText t\<close> (\<^verbatim>\<open>print(r.text)\<close>).
\<close>

datatype message = SavedCsv string | SavedPx string | NotRecognized | RawText string

record world =
  dirs :: "string set"
  files :: "string \<rightharpoonup> string"
  stdout :: "message list"
  requests :: "(string \<times> json) list"

text \<open>\<^verbatim>\<open>Path(p).mkdir(parents=True, exist_ok=True)\<close> for a path of one component\<close>

definition mkdir :: "string \<Rightarrow> world \<Rightarrow> world" where
  "mkdir p w = w\<lparr>dirs := insert p (dirs w)\<rparr>"

text \<open>
  \<^verbatim>\<open>data_dir / name\<close>: a name that starts with a slash replaces the directory. For a
  name without a slash, the only kind the theorems below need, this is all that pathlib does.
\<close>

definition path_join :: "string \<Rightarrow> string \<Rightarrow> string" where
  "path_join d n = (if n \<noteq> [] \<and> hd n = CHR ''/'' then n else d @ ''/'' @ n)"

definition parent_dir :: "string \<Rightarrow> string" where
  "parent_dir p = rev (drop 1 (dropWhile (\<lambda>c. c \<noteq> CHR ''/'') (rev p)))"

text \<open>
  \<^verbatim>\<open>path.write_text(t)\<close> and the write of \<^verbatim>\<open>to_csv\<close>: the file is created or
  overwritten; the directory it lies in must exist.
\<close>

definition write_text :: "string \<Rightarrow> string \<Rightarrow> world \<Rightarrow> error + world" where
  "write_text p t w =
     (if parent_dir p \<in> dirs w then Inr (w\<lparr>files := (files w)(p \<mapsto> t)\<rparr>)
      else Inl (FileNotFoundError p))"

definition print :: "message \<Rightarrow> world \<Rightarrow> world" where
  "print m w = w\<lparr>stdout := stdout w @ [m]\<rparr>"

text \<open>\<^verbatim>\<open>f"{table_id}"\<close>\<close>

definition format_value :: "env \<Rightarrow> json \<Rightarrow> string" where
  "format_value env v = (case v of JStr s \<Rightarrow> s | _ \<Rightarrow> py_str env v)"

section \<open>The steps shared by the two scripts\<close>

text \<open>Lines 11-15 (10-14): open the file, parse it, read the two fields.\<close>

definition load_config :: "env \<Rightarrow> string \<Rightarrow> error + (json \<times> json)" where
  "load_config env path =
     (case config env path of
        Missing \<Rightarrow> Inl (FileNotFoundError path)
      | Malformed \<Rightarrow> Inl JSONDecodeError
      | Parsed cfg \<Rightarrow>
          and_then (getitem cfg ''queryObj'')
            (\<lambda>payload. and_then (getitem cfg ''tableIdForQuery'')
               (\<lambda>table_id. Inr (payload, table_id))))"

text \<open>
  Lines 24-25 (22-23): \<^verbatim>\<open>requests.post\<close>, then \<^verbatim>\<open>raise_for_status()\<close>, which raises
  for a status code from 400 to 599 and for no other.
\<close>

definition fetch :: "env \<Rightarrow> string \<Rightarrow> json \<Rightarrow> world \<Rightarrow> (error + string) \<times> world" where
  "fetch env url payload w =
     (let w' = w\<lparr>requests := requests w @ [(url, payload)]\<rparr>
      in case post env url payload of
           ConnectionFailed \<Rightarrow> (Inl ConnectionError, w')
         | Response st body \<Rightarrow>
             if 400 \<le> st \<and> st < 600 then (Inl (HTTPError st), w') else (Inr body, w'))"

text \<open>The end of the csv branch and the px branch: write, then print the success line.\<close>

definition save :: "(string \<Rightarrow> message) \<Rightarrow> string \<Rightarrow> string \<Rightarrow> world \<Rightarrow> error option \<times> world" where
  "save msg p t w =
     (case write_text p t w of
        Inl e \<Rightarrow> (Some e, w)
      | Inr w' \<Rightarrow> (None, print (msg p) w'))"

text \<open>The last branch: two \<^verbatim>\<open>print\<close> calls.\<close>

definition print_raw :: "string \<Rightarrow> world \<Rightarrow> error option \<times> world" where
  "print_raw body w = (None, print (RawText body) (print NotRecognized w))"

section \<open>The direct-estimate script\<close>

definition url1 :: string where
  "url1 = ''https://api.scb.se/OV0104/v1/doris/en/ssd/START/AM/AM0401/AM0401N/''"

definition renames1 :: "(string \<times> string) list" where
  "renames1 =
     [(''region'', ''County''),
      (''Percent 2025K1'', ''Percent_2025K1''),
      (''Margin of error '' @ [CHR 0xB1] @ '' percent 2025K1'', ''Percent_2025K1_me'')]"

text \<open>Lines 37-52: parse, rename, select, clean.\<close>

definition normalize1 :: "env \<Rightarrow> string \<Rightarrow> error + dataframe" where
  "normalize1 env body =
     and_then (read_csv env body)
       (\<lambda>df. and_then (select_columns (map snd renames1) (rename_columns renames1 df))
          (clean_county False))"

definition run1 :: "env \<Rightarrow> world \<Rightarrow> error option \<times> world" where
  "run1 env w =
     (case load_config env ''data/directEstimate.json'' of
        Inl e \<Rightarrow> (Some e, w)
      | Inr (payload, table_id) \<Rightarrow>
          (case fetch env (url1 @ format_value env table_id) payload w of
             (Inl e, w1) \<Rightarrow> (Some e, w1)
           | (Inr body, w1) \<Rightarrow>
               (case response_format payload of
                  Inl e \<Rightarrow> (Some e, w1)
                | Inr fmt \<Rightarrow>
                    (let w2 = mkdir ''data'' w1
                     in if fmt = ''csv'' then
                          (case normalize1 env body of
                             Inl e \<Rightarrow> (Some e, w2)
                           | Inr df \<Rightarrow>
                               save SavedCsv (path_join ''data'' ''direct_estimates.csv'')
                                 (to_csv df) w2)
                        else if fmt = ''px'' then
                          save SavedPx (path_join ''data'' (format_value env table_id @ ''.px''))
                            body w2
                        else print_raw body w2))))"

section \<open>The population-density script\<close>

definition url2 :: string where
  "url2 = ''https://api.scb.se/OV0104/v1/doris/en/ssd/START/BE/BE0101/BE0101C/''"

definition renames2 :: "(string \<times> string) list" where
  "renames2 =
     [(''region'', ''County''),
      (''Population density per sq. km 2024'', ''PopDensity_2024'')]"

text \<open>Lines 30-44: parse, rename, select, clean, here with \<^verbatim>\<open>re.IGNORECASE\<close>.\<close>

definition normalize2 :: "env \<Rightarrow> string \<Rightarrow> error + dataframe" where
  "normalize2 env body =
     and_then (read_csv env body)
       (\<lambda>df. and_then (select_columns (map snd renames2) (rename_columns renames2 df))
          (clean_county True))"

definition run2 :: "env \<Rightarrow> world \<Rightarrow> error option \<times> world" where
  "run2 env w =
     (case load_config env ''data/popdensity.json'' of
        Inl e \<Rightarrow> (Some e, w)
      | Inr (payload, table_id) \<Rightarrow>
          (case fetch env (url2 @ format_value env table_id) payload w of
             (Inl e, w1) \<Rightarrow> (Some e, w1)
           | (Inr body, w1) \<Rightarrow>
               (case response_format payload of
                  Inl e \<Rightarrow> (Some e, w1)
                | Inr fmt \<Rightarrow>
                    if fmt = ''csv'' then
                      (case normalize2 env body of
                         Inl e \<Rightarrow> (Some e, w1)
                       | Inr df \<Rightarrow>
                           save SavedCsv (path_join ''data'' ''popdensity.csv'')
                             (to_csv df) (mkdir ''data'' w1))
                    else if fmt = ''px'' then
                      save SavedPx (path_join ''data'' (format_value env table_id @ ''.px''))
                        body (mkdir ''data'' w1)
                    else print_raw body w1)))"


section \<open>The two scripts side by side\<close>

text \<open>
  The two scripts differ in the configuration path, the address, the columns, the flag of
  the second replacement, the name of the CSV file and the place of the \<^verbatim>\<open>mkdir\<close> call.
\<close>

datatype pipeline = DirectEstimate | PopDensity

fun config_path :: "pipeline \<Rightarrow> string" where
  "config_path DirectEstimate = ''data/directEstimate.json''"
| "config_path PopDensity = ''data/popdensity.json''"

fun base_url :: "pipeline \<Rightarrow> string" where
  "base_url DirectEstimate = url1"
| "base_url PopDensity = url2"

fun renames :: "pipeline \<Rightarrow> (string \<times> string) list" where
  "renames DirectEstimate = renames1"
| "renames PopDensity = renames2"

fun ignore_case :: "pipeline \<Rightarrow> bool" where
  "ignore_case DirectEstimate = False"
| "ignore_case PopDensity = True"

fun csv_path :: "pipeline \<Rightarrow> string" where
  "csv_path DirectEstimate = ''data/direct_estimates.csv''"
| "csv_path PopDensity = ''data/popdensity.csv''"

fun normalize :: "pipeline \<Rightarrow> env \<Rightarrow> string \<Rightarrow> error + dataframe" where
  "normalize DirectEstimate = normalize1"
| "normalize PopDensity = normalize2"

fun run :: "pipeline \<Rightarrow> env \<Rightarrow> world \<Rightarrow> error option \<times> world" where
  "run DirectEstimate = run1"
| "run PopDensity = run2"

text \<open>The world after the request of a run has been sent.\<close>

definition sent :: "pipeline \<Rightarrow> env \<Rightarrow> json \<Rightarrow> json \<Rightarrow> world \<Rightarrow> world" where
  "sent pl env payload table_id w =
     w\<lparr>requests := requests w @ [(base_url pl @ format_value env table_id, payload)]\<rparr>"

text \<open>
  A run that got past the first three steps: the configuration holds both fields, and
  the server answered the request with a status that \<^verbatim>\<open>raise_for_status\<close> lets pass.
\<close>

definition fetched :: "pipeline \<Rightarrow> env \<Rightarrow> json \<Rightarrow> json \<Rightarrow> string \<Rightarrow> bool" where
  "fetched pl env payload table_id body =
     (load_config env (config_path pl) = Inr (payload, table_id)
      \<and> (case post env (base_url pl @ format_value env table_id) payload of
            ConnectionFailed \<Rightarrow> False
          | Response st b \<Rightarrow> b = body \<and> \<not> (400 \<le> st \<and> st < 600)))"

section \<open>Properties of names and tables\<close>

definition no_surrounding_space :: "string \<Rightarrow> bool" where
  "no_surrounding_space s = (s = [] \<or> (\<not> is_space (hd s) \<and> \<not> is_space (last s)))"

text \<open>The text ends in a whitespace and the word, as the second replacement reads it.\<close>

definition ends_county :: "bool \<Rightarrow> string \<Rightarrow> bool" where
  "ends_county ic s = (7 \<le> length s \<and> match_county ic (drop (length s - 7) s))"

text \<open>The text begins with digits and a whitespace, as the first replacement reads it.\<close>

definition begins_code :: "string \<Rightarrow> bool" where
  "begins_code s =
     (takeWhile is_digit s \<noteq> [] \<and> takeWhile is_space (dropWhile is_digit s) \<noteq> [])"

text \<open>The cells under the label \<^verbatim>\<open>County\<close>.\<close>

definition region_column :: "dataframe \<Rightarrow> cell list" where
  "region_column df = concat (map snd (filter (\<lambda>c. fst c = ''County'') df))"

text \<open>
  A configuration file that cannot be loaded: it is missing, it is no valid JSON, or the
  value in it does not hold both \<^verbatim>\<open>queryObj\<close> and \<^verbatim>\<open>tableIdForQuery\<close>.
\<close>

fun lacks_required :: "config_file \<Rightarrow> bool" where
  "lacks_required Missing = True"
| "lacks_required Malformed = True"
| "lacks_required (Parsed (JObj kvs)) =
     (map_of kvs ''queryObj'' = None \<or> map_of kvs ''tableIdForQuery'' = None)"
| "lacks_required (Parsed v) = True"

section \<open>A parser for plain CSV text\<close>

text \<open>
  For runs on a concrete response body the parameter \<open>read_csv\<close> is given by
  \<open>read_csv_plain\<close>, which does what \<^verbatim>\<open>pd.read_csv(StringIO(text), sep=",")\<close> does on
  plain text: records ended by a newline, empty lines skipped, fields separated by commas,
  the first record the header, an empty field a missing value, and a column whose fields
  are all numerals a column of numbers. It is meant for text without double quotes and
  carriage returns, with distinct header names, with as many fields in every record as in
  the header, and with numerals written the way Python prints them (\<^verbatim>\<open>45.2\<close>, not
  \<^verbatim>\<open>45.20\<close>), all of one kind within a column; no theorem applies it to any other text.
\<close>

fun split_on :: "char \<Rightarrow> string \<Rightarrow> string list" where
  "split_on d [] = [[]]"
| "split_on d (c # cs) =
     (if c = d then [] # split_on d cs
      else (case split_on d cs of f # fs \<Rightarrow> (c # f) # fs | [] \<Rightarrow> [[c]]))"

definition is_integer_numeral :: "string \<Rightarrow> bool" where
  "is_integer_numeral t =
     (t \<noteq> [] \<and> list_all is_digit t \<and> (hd t \<noteq> CHR ''0'' \<or> length t = 1) \<and> length t \<le> 15)"

definition is_fraction_numeral :: "string \<Rightarrow> bool" where
  "is_fraction_numeral t =
     (let i = takeWhile (\<lambda>c. c \<noteq> CHR ''.'') t;
          f = drop 1 (dropWhile (\<lambda>c. c \<noteq> CHR ''.'') t)
      in is_integer_numeral i \<and> f \<noteq> [] \<and> list_all is_digit f
         \<and> (last f \<noteq> CHR ''0'' \<or> length f = 1) \<and> length i + length f \<le> 15)"

definition type_column :: "string list \<Rightarrow> cell list" where
  "type_column ts =
     (let filled = filter (\<lambda>t. t \<noteq> []) ts
      in if filled \<noteq> [] \<and> (list_all is_integer_numeral filled \<or> list_all is_fraction_numeral filled)
         then map (\<lambda>t. if t = [] then NaN else Num t) ts
         else map (\<lambda>t. if t = [] then NaN else Str t) ts)"

definition read_csv_plain :: "string \<Rightarrow> error + dataframe" where
  "read_csv_plain body =
     (case filter (\<lambda>l. l \<noteq> []) (split_on LF body) of
        [] \<Rightarrow> Inl ParserError
      | h # rs \<Rightarrow>
          (let names = split_on CHR '','' h;
               rows = map (split_on CHR '','') rs
           in if list_ex (\<lambda>r. length r \<noteq> length names) rows then Inl ParserError
              else Inr (map (\<lambda>i. (names ! i, type_column (map (\<lambda>r. r ! i) rows)))
                          [0..<length names])))"

section \<open>Concrete runs\<close>

text \<open>
  A configuration file with a query that asks for format \<open>fmt\<close> and with the table
  identifier \<open>tid\<close>; an environment in which every configuration path holds \<open>cfg\<close> and the
  server answers every request with \<open>resp\<close>; and a world in which only \<^verbatim>\<open>data/\<close> exists.
\<close>

definition query_payload :: "string \<Rightarrow> json" where
  "query_payload fmt =
     JObj [(''query'', JArr []), (''response'', JObj [(''format'', JStr fmt)])]"

definition query_config :: "string \<Rightarrow> string \<Rightarrow> json" where
  "query_config fmt tid =
     JObj [(''queryObj'', query_payload fmt), (''tableIdForQuery'', JStr tid)]"

definition scenario_env :: "json \<Rightarrow> http_result \<Rightarrow> env" where
  "scenario_env cfg resp =
     \<lparr>config = (\<lambda>p. Parsed cfg), post = (\<lambda>u p. resp),
      read_csv = read_csv_plain, py_str = (\<lambda>v. [])\<rparr>"

definition world0 :: world where
  "world0 = \<lparr>dirs = {''data''}, files = Map.empty, stdout = [], requests = []\<rparr>"

text \<open>The response body of the scenario of the direct-estimate table, one row.\<close>

definition header1 :: string where
  "header1 = ''region,Percent 2025K1,Margin of error '' @ [CHR 0xB1] @ '' percent 2025K1''"

definition body1 :: string where
  "body1 = records_text [header1, ''01 Stockholm county,45.2,1.1'']"


text \<open>The table that the direct-estimate script writes for \<open>body1\<close>.\<close>

definition table1 :: dataframe where
  "table1 = [(''County'', [Str ''Stockholm'']), (''Percent_2025K1'', [Num ''45.2'']),
             (''Percent_2025K1_me'', [Num ''1.1''])]"

definition env_csv1 :: env where
  "env_csv1 = scenario_env (query_config ''csv'' ''AM0401N1'') (Response 200 body1)"

text \<open>
  A body whose region values carry a blank after the word, and a second number after the
  code.
\<close>

definition body_blank :: string where
  "body_blank = records_text [header1, ''01 Stockholm county ,45.2,1.1'',
                              ''03 04 Uppsala county,44.3,1.3'']"

definition env_blank :: env where
  "env_blank = scenario_env (query_config ''csv'' ''AM0401N1'') (Response 200 body_blank)"

text \<open>A body whose header already carries the label \<^verbatim>\<open>County\<close> and has no \<^verbatim>\<open>region\<close>.\<close>

definition body_county :: string where
  "body_county =
     records_text [''County,Percent 2025K1,Margin of error '' @ [CHR 0xB1] @ '' percent 2025K1'',
                   ''Stockholm,45.2,1.1'']"

definition env_county :: env where
  "env_county = scenario_env (query_config ''csv'' ''AM0401N1'') (Response 200 body_county)"

text \<open>A body without any column for the region.\<close>

definition body_area :: string where
  "body_area = records_text [''area,Population density per sq. km 2024'', ''Stockholm,385.2'']"

definition env_area :: env where
  "env_area = scenario_env (query_config ''csv'' ''BE0101U1'') (Response 200 body_area)"

text \<open>Answers with the status codes 304 and 404, and runs that ask for px and for xml.\<close>

definition env_304 :: env where
  "env_304 = scenario_env (query_config ''px'' ''AM0401N1'') (Response 304 ''PXDATA'')"

definition env_404 :: env where
  "env_404 = scenario_env (query_config ''px'' ''AM0401N1'') (Response 404 ''Not Found'')"


definition env_xml :: env where
  "env_xml = scenario_env (query_config ''xml'' ''BE0101N1'') (Response 200 ''<table/>'')"

text \<open>A configuration without the table identifier, and one whose query names no format.\<close>

definition env_no_table :: env where
  "env_no_table = scenario_env (JObj [(''queryObj'', query_payload ''csv'')]) (Response 200 [])"

definition env_no_format :: env where
  "env_no_format =
     scenario_env (JObj [(''queryObj'', JObj [(''query'', JArr [])]),
                         (''tableIdForQuery'', JStr ''BE0101N1'')])
       (Response 200 ''raw'')"

section \<open>Lemmas about the cleaning steps\<close>

lemma strip_no_surrounding_space: "no_surrounding_space (strip s)"
proof -
  define t where "t = dropWhile is_space s"
  define u where "u = dropWhile is_space (rev t)"
  have su: "strip s = rev u" by (simp add: strip_def t_def u_def)
  show ?thesis
  proof (cases "u = []")
    case True
    then show ?thesis by (simp add: su no_surrounding_space_def)
  next
    case False
    then have hu: "\<not> is_space (hd u)" unfolding u_def by (rule hd_dropWhile)
    from False have tne: "t \<noteq> []" by (auto simp: u_def)
    then have ht: "\<not> is_space (hd t)" unfolding t_def by (rule hd_dropWhile)
    obtain pre where "rev t = pre @ u"
      unfolding u_def by (metis takeWhile_dropWhile_id)
    with False have "last u = last (rev t)" by simp
    also have "\<dots> = hd t" using tne by (simp add: last_rev)
    finally have lu: "\<not> is_space (last u)" using ht by simp
    from False hu lu show ?thesis
      by (simp add: su no_surrounding_space_def hd_rev last_rev)
  qed
qed

lemma strip_id: "no_surrounding_space s \<Longrightarrow> strip s = s"
proof (cases "s = []")
  case True then show ?thesis by (simp add: strip_def)
next
  case False
  assume "no_surrounding_space s"
  with False have h: "\<not> is_space (hd s)" and l: "\<not> is_space (last s)"
    by (auto simp: no_surrounding_space_def)
  from False h have 1: "dropWhile is_space s = s" by (cases s) auto
  from False l have 2: "dropWhile is_space (rev s) = rev s"
    by (cases "rev s") (auto simp: last_rev hd_rev[symmetric] dest: arg_cong[where f=hd])
  show ?thesis by (simp add: strip_def 1 2)
qed

lemma digit_not_space: "is_digit c \<Longrightarrow> \<not> is_space c"
  by (auto simp: is_digit_def is_space_def)

lemma sub_leading_code_shape:
  assumes ds: "ds \<noteq> []" "list_all is_digit ds"
      and ws: "ws \<noteq> []" "list_all is_space ws"
      and r: "r \<noteq> []" "\<not> is_space (hd r)"
  shows "sub_leading_code (ds @ ws @ r) = r"
proof -
  from ws obtain w ws' where w: "ws = w # ws'" "is_space w" by (cases ws) auto
  have nd: "\<not> is_digit w" using w digit_not_space by blast
  have t1: "takeWhile is_digit (ds @ ws @ r) = ds"
    using ds(2) nd w(1) by (simp add: takeWhile_append2 list_all_iff)
  have d1: "dropWhile is_digit (ds @ ws @ r) = ws @ r"
    using ds(2) nd w(1) by (simp add: dropWhile_append2 list_all_iff)
  from r obtain c r' where c: "r = c # r'" "\<not> is_space c" by (cases r) auto
  have t2: "takeWhile is_space (ws @ r) = ws"
    using ws(2) c by (simp add: takeWhile_append2 list_all_iff)
  have d2: "dropWhile is_space (ws @ r) = r"
    using ws(2) c by (simp add: dropWhile_append2 list_all_iff)
  show ?thesis
    using ds(1) ws(1) by (simp add: sub_leading_code_def Let_def t1 d1 t2 d2)
qed

lemma county_word_length:
  "(if ic then lower cty else cty) = ''county'' \<Longrightarrow> length cty = 6"
  by (cases ic) (auto simp: lower_def dest: arg_cong[where f=length])

lemma lower_char_LF: "lower_char LF = LF"
  by (simp add: lower_char_def LF_def upper_chars_def lower_chars_def)

lemma county_word_last_char:
  assumes "(if ic then lower cty else cty) = ''county''"
  shows "cty \<noteq> [] \<and> last cty \<noteq> LF"
proof -
  have l: "length cty = 6" using assms by (rule county_word_length)
  then have ne: "cty \<noteq> []" by auto
  have "last (if ic then lower cty else cty) = CHR ''y''" using assms by simp
  then have "(if ic then lower_char (last cty) else last cty) = CHR ''y''"
    using ne by (simp add: lower_def last_map split: if_splits)
  moreover have "LF \<noteq> CHR ''y''" by (simp add: LF_def)
  ultimately have "last cty \<noteq> LF" using lower_char_LF by (auto split: if_splits)
  with ne show ?thesis by simp
qed

lemma match_county_word:
  assumes "is_space sp" "(if ic then lower cty else cty) = ''county''"
  shows "match_county ic (sp # cty)"
  using assms county_word_length[OF assms(2)] by (auto simp: match_county_def)

lemma sub_county_suffix:
  assumes sp: "is_space sp" and cty: "(if ic then lower cty else cty) = ''county''"
  shows "sub_county ic (name @ sp # cty) = name"
proof (induction name)
  case Nil
  show ?case using match_county_word[OF sp cty] county_word_length[OF cty] by simp
next
  case (Cons c name)
  have l: "length cty = 6" using cty by (rule county_word_length)
  have "\<not> match_county ic (c # name @ sp # cty)"
  proof
    assume m: "match_county ic (c # name @ sp # cty)"
    then have "drop 6 (name @ sp # cty) = [] \<or> drop 6 (name @ sp # cty) = [LF]"
      by (simp add: match_county_def del: drop_append take_append)
    moreover have len: "length (drop 6 (name @ sp # cty)) = length name + 1" using l by simp
    ultimately have d: "drop 6 (name @ sp # cty) = [LF]"
      by (metis add_is_0 list.size(3) one_neq_zero)
    have "length (drop 6 (name @ sp # cty)) = 1" by (simp only: d) simp
    with len have n: "name = []" by simp
    from d n have "drop 5 cty = [LF]" by simp
    moreover have "last (drop 5 cty) = last cty" using l by simp
    ultimately have "last cty = LF" by simp
    with county_word_last_char[OF cty] show False by simp
  qed
  then show ?case using Cons.IH by simp
qed

lemma sub_county_id:
  assumes "\<not> ends_county ic s" "s = [] \<or> last s \<noteq> LF"
  shows "sub_county ic s = s"
  using assms
proof (induction s)
  case Nil
  show ?case by simp
next
  case (Cons c cs)
  have nm: "\<not> match_county ic (c # cs)"
  proof
    assume m: "match_county ic (c # cs)"
    then have d: "drop 6 cs = [] \<or> drop 6 cs = [LF]" and t: "length (take 6 cs) = 6"
      by (auto simp: match_county_def lower_def split: if_splits dest: arg_cong[where f=length])
    from t have l6: "6 \<le> length cs" by simp
    from d show False
    proof
      assume "drop 6 cs = []"
      with l6 have "length cs = 6" by simp
      with m Cons.prems(1) show False by (simp add: ends_county_def)
    next
      assume e: "drop 6 cs = [LF]"
      then have "cs \<noteq> []" by auto
      moreover have "last cs = last (drop 6 cs)" using e by (metis last_drop length_drop list.size(3) not_less zero_less_diff list.distinct(1) drop_all linorder_not_le)
      ultimately show False using Cons.prems(2) e by simp
    qed
  qed
  have e': "\<not> ends_county ic cs"
  proof
    assume a: "ends_county ic cs"
    then have "7 \<le> length cs" by (simp add: ends_county_def)
    then have "drop (length (c # cs) - 7) (c # cs) = drop (length cs - 7) cs"
      by (simp add: drop_Cons')
    with a have "ends_county ic (c # cs)" by (simp add: ends_county_def)
    with Cons.prems(1) show False by simp
  qed
  have l': "cs = [] \<or> last cs \<noteq> LF" using Cons.prems(2) by (cases cs) auto
  show ?case using nm Cons.IH[OF e' l'] by simp
qed

lemma clean_name_shape:
  assumes ds: "ds \<noteq> []" "list_all is_digit ds"
      and ws: "ws \<noteq> []" "list_all is_space ws"
      and name: "name \<noteq> []" "no_surrounding_space name" "\<not> ends_county ic name"
      and suf: "suf = [] \<or> (\<exists>sp cty. suf = sp # cty \<and> is_space sp
                  \<and> (if ic then lower cty else cty) = ''county'')"
  shows "clean_name ic (ds @ ws @ name @ suf) = name"
proof -
  from name have h: "\<not> is_space (hd name)" and l: "\<not> is_space (last name)"
    by (auto simp: no_surrounding_space_def)
  have r: "name @ suf \<noteq> []" "\<not> is_space (hd (name @ suf))" using name(1) h by auto
  have 1: "sub_leading_code (ds @ ws @ name @ suf) = name @ suf"
    using sub_leading_code_shape[OF ds ws r] by simp
  have "is_space LF" by (simp add: is_space_def LF_def)
  with l have nl: "name = [] \<or> last name \<noteq> LF" by auto
  have 2: "sub_county ic (name @ suf) = name"
    using suf
  proof
    assume "suf = []"
    then show ?thesis using sub_county_id[OF name(3) nl] by simp
  next
    assume "\<exists>sp cty. suf = sp # cty \<and> is_space sp \<and> (if ic then lower cty else cty) = ''county''"
    then obtain sp cty where s: "suf = sp # cty" "is_space sp"
      "(if ic then lower cty else cty) = ''county''" by blast
    show ?thesis unfolding s(1) using s(2,3) by (rule sub_county_suffix)
  qed
  show ?thesis by (simp add: clean_name_def 1 2 strip_id[OF name(2)])
qed

lemma str_accessor_ok_map: "str_accessor_ok (map (str_cell f) col) = str_accessor_ok col"
proof -
  have "is_Str (str_cell f c) = is_Str c" for c by (cases c) simp_all
  then show ?thesis by (simp add: str_accessor_ok_def list_ex_iff)
qed

lemma clean_column_eq:
  "clean_column ic col =
     (if str_accessor_ok col then Inr (map (str_cell (clean_name ic)) col) else Inl AttributeError)"
proof (cases "str_accessor_ok col")
  case False
  then show ?thesis by (simp add: clean_column_def str_method_def and_then_def)
next
  case True
  define c1 where "c1 = map (str_cell sub_leading_code) col"
  define c2 where "c2 = map (str_cell (sub_county ic)) c1"
  have ok1: "str_accessor_ok c1" using True by (simp add: c1_def str_accessor_ok_map)
  have ok2: "str_accessor_ok c2" using ok1 by (simp add: c2_def str_accessor_ok_map)
  have e: "str_cell strip (str_cell (sub_county ic) (str_cell sub_leading_code c))
           = str_cell (clean_name ic) c" for c
    by (cases c) (simp_all add: clean_name_def)
  have "clean_column ic col = Inr (map (str_cell strip) c2)"
    using True ok1 ok2
    by (simp add: clean_column_def str_method_def and_then_def c1_def[symmetric] c2_def[symmetric])
  also have "map (str_cell strip) c2 = map (str_cell (clean_name ic)) col"
    by (simp add: c2_def c1_def e)
  finally show ?thesis using True by simp
qed

section \<open>Lemmas about the runs\<close>

lemma fetch_fetched:
  assumes "fetched pl env payload tid body"
  shows "fetch env (base_url pl @ format_value env tid) payload w = (Inr body, sent pl env payload tid w)"
  using assms by (auto simp: fetched_def fetch_def sent_def Let_def split: http_result.splits)

lemma load_fetched:
  "fetched pl env payload tid body \<Longrightarrow> load_config env (config_path pl) = Inr (payload, tid)"
  by (simp add: fetched_def)

lemma parent_dir_data: "CHR ''/'' \<notin> set n \<Longrightarrow> parent_dir (''data/'' @ n) = ''data''"
proof -
  assume a: "CHR ''/'' \<notin> set n"
  have "dropWhile (\<lambda>c. c \<noteq> CHR ''/'') (rev n @ ''/atad'') = ''/atad''"
    using a by (subst dropWhile_append2) auto
  then show ?thesis by (simp add: parent_dir_def)
qed

lemma path_join_data: "CHR ''/'' \<notin> set n \<Longrightarrow> path_join ''data'' n = ''data/'' @ n"
  by (cases n) (auto simp: path_join_def)

lemma save_data:
  assumes "''data'' \<in> dirs w" "CHR ''/'' \<notin> set n"
  shows "save msg (path_join ''data'' n) t w =
           (None, print (msg (''data/'' @ n)) (w\<lparr>files := (files w)(''data/'' @ n \<mapsto> t)\<rparr>))"
proof -
  have p: "parent_dir (''data/'' @ n) \<in> dirs w"
    using assms(1) parent_dir_data[OF assms(2)] by simp
  show ?thesis
    using p by (simp add: save_def write_text_def path_join_data[OF assms(2)])
qed

lemma run1_fetched:
  assumes "fetched DirectEstimate env payload tid body"
  shows "run1 env w =
     (case response_format payload of
        Inl e \<Rightarrow> (Some e, sent DirectEstimate env payload tid w)
      | Inr fmt \<Rightarrow>
          (let w2 = mkdir ''data'' (sent DirectEstimate env payload tid w)
           in if fmt = ''csv'' then
                (case normalize1 env body of
                   Inl e \<Rightarrow> (Some e, w2)
                 | Inr df \<Rightarrow> save SavedCsv (path_join ''data'' ''direct_estimates.csv'') (to_csv df) w2)
              else if fmt = ''px'' then
                save SavedPx (path_join ''data'' (format_value env tid @ ''.px'')) body w2
              else print_raw body w2))"
  using load_fetched[OF assms] fetch_fetched[OF assms, of w]
  by (simp add: run1_def)

lemma run2_fetched:
  assumes "fetched PopDensity env payload tid body"
  shows "run2 env w =
     (case response_format payload of
        Inl e \<Rightarrow> (Some e, sent PopDensity env payload tid w)
      | Inr fmt \<Rightarrow>
           if fmt = ''csv'' then
                (case normalize2 env body of
                   Inl e \<Rightarrow> (Some e, sent PopDensity env payload tid w)
                 | Inr df \<Rightarrow> save SavedCsv (path_join ''data'' ''popdensity.csv'') (to_csv df)
                     (mkdir ''data'' (sent PopDensity env payload tid w)))
              else if fmt = ''px'' then
                save SavedPx (path_join ''data'' (format_value env tid @ ''.px'')) body
                  (mkdir ''data'' (sent PopDensity env payload tid w))
              else print_raw body (sent PopDensity env payload tid w))"
  using load_fetched[OF assms] fetch_fetched[OF assms, of w]
  by (simp add: run2_def)

lemma load_config_lacks:
  "lacks_required (config env p) \<Longrightarrow>
     \<exists>e. load_config env p = Inl e \<and>
         (e = FileNotFoundError p \<or> e = JSONDecodeError \<or> e = TypeError
          \<or> e = KeyError ''queryObj'' \<or> e = KeyError ''tableIdForQuery'')"
  by (cases "config env p" rule: lacks_required.cases)
     (auto simp: load_config_def and_then_def split: option.splits)



lemma print_raw_result:
  "print_raw body w = (None, w\<lparr>stdout := stdout w @ [NotRecognized, RawText body]\<rparr>)"
  by (simp add: print_raw_def print_def)

lemma run_fallback:
  assumes f: "fetched pl env payload tid body"
      and r: "response_format payload = Inr fmt" and n: "fmt \<noteq> ''csv''" "fmt \<noteq> ''px''"
  shows "fst (run pl env w) = None \<and> files (snd (run pl env w)) = files w
         \<and> stdout (snd (run pl env w)) = stdout w @ [NotRecognized, RawText body]"
proof (cases pl)
  case DirectEstimate
  then show ?thesis
    using run1_fetched[OF f[unfolded DirectEstimate], of w] r n
    by (simp add: print_raw_result mkdir_def sent_def)
next
  case PopDensity
  then show ?thesis
    using run2_fetched[OF f[unfolded PopDensity], of w] r n
    by (simp add: print_raw_result sent_def)
qed

lemma plain_normalize_body1:
  "and_then (read_csv_plain body1)
     (\<lambda>df. and_then (select_columns (map snd renames1) (rename_columns renames1 df))
        (clean_county False)) = Inr table1"
  by code_simp

lemma to_csv_table1:
  "to_csv table1 = records_text [''County,Percent_2025K1,Percent_2025K1_me'', ''Stockholm,45.2,1.1'']"
  by code_simp

lemma csv_name_no_slash:
  "CHR ''/'' \<notin> set ''direct_estimates.csv''" "CHR ''/'' \<notin> set ''popdensity.csv''"
  by simp_all

lemma run_csv:
  assumes f: "fetched pl env payload tid body"
      and r: "response_format payload = Inr ''csv''"
      and n: "normalize pl env body = Inr df"
  shows "fst (run pl env w) = None
         \<and> files (snd (run pl env w)) = (files w)(csv_path pl \<mapsto> to_csv df)"
proof -
  let ?w = "mkdir ''data'' (sent pl env payload tid w)"
  have d: "''data'' \<in> dirs ?w" by (simp add: mkdir_def)
  show ?thesis
  proof (cases pl)
    case DirectEstimate
    with n have n1: "normalize1 env body = Inr df" by simp
    have "run1 env w = save SavedCsv (path_join ''data'' ''direct_estimates.csv'') (to_csv df) ?w"
      using run1_fetched[OF f[unfolded DirectEstimate], of w] r n1 DirectEstimate
      by (simp add: Let_def)
    then have "run1 env w = (None, print (SavedCsv ''data/direct_estimates.csv'')
        (?w\<lparr>files := (files ?w)(''data/direct_estimates.csv'' \<mapsto> to_csv df)\<rparr>))"
      using save_data[OF d csv_name_no_slash(1), of SavedCsv "to_csv df"] by simp
    then show ?thesis using DirectEstimate by (simp add: print_def mkdir_def sent_def)
  next
    case PopDensity
    with n have n1: "normalize2 env body = Inr df" by simp
    have "run2 env w = save SavedCsv (path_join ''data'' ''popdensity.csv'') (to_csv df) ?w"
      using run2_fetched[OF f[unfolded PopDensity], of w] r n1 PopDensity
      by simp
    then have "run2 env w = (None, print (SavedCsv ''data/popdensity.csv'')
        (?w\<lparr>files := (files ?w)(''data/popdensity.csv'' \<mapsto> to_csv df)\<rparr>))"
      using save_data[OF d csv_name_no_slash(2), of SavedCsv "to_csv df"] by simp
    then show ?thesis using PopDensity by (simp add: print_def mkdir_def sent_def)
  qed
qed

section \<open>Lemmas about renaming and selecting\<close>

lemma rename_columns_relabel: "rename_columns m df = map (\<lambda>c. (relabel m (fst c), snd c)) df"
  by (simp add: rename_columns_def case_prod_beta)

lemma labels_rename: "fst ` set (rename_columns m df) = relabel m ` fst ` set df"
  by (simp add: rename_columns_relabel image_image)

lemma relabel_target:
  assumes "(src, tgt) \<in> set (renames pl)"
  shows "relabel (renames pl) l = tgt \<longleftrightarrow> l = src \<or> l = tgt"
  using assms
  by (cases pl) (auto simp: relabel_def renames1_def renames2_def)

lemma relabel_County: "relabel (renames pl) l = ''County'' \<longleftrightarrow> l = ''region'' \<or> l = ''County''"
  by (rule relabel_target) (cases pl; simp add: renames1_def renames2_def)

lemma select_missing:
  assumes "l \<in> set ls" "l \<notin> fst ` set df"
  shows "\<exists>ms. select_columns ls df = Inl (LabelsNotInIndex ms) \<and> l \<in> set ms"
proof -
  have i: "l \<in> set (filter (\<lambda>l. l \<notin> fst ` set df) ls)" using assms by simp
  then have "filter (\<lambda>l. l \<notin> fst ` set df) ls \<noteq> []" by (metis empty_iff empty_set)
  with i show ?thesis unfolding select_columns_def Let_def by simp
qed

lemma normalize_unfold:
  "normalize pl env body =
     and_then (read_csv env body)
       (\<lambda>df. and_then (select_columns (map snd (renames pl)) (rename_columns (renames pl) df))
          (clean_county (ignore_case pl)))"
  by (cases pl) (simp_all add: normalize1_def normalize2_def)

lemma run_csv_error:
  assumes f: "fetched pl env payload tid body"
      and r: "response_format payload = Inr ''csv''"
      and n: "normalize pl env body = Inl e"
  shows "fst (run pl env w) = Some e \<and> files (snd (run pl env w)) = files w"
proof (cases pl)
  case DirectEstimate
  with n have "normalize1 env body = Inl e" by simp
  then show ?thesis
    using run1_fetched[OF f[unfolded DirectEstimate], of w] r DirectEstimate
    by (simp add: Let_def mkdir_def sent_def)
next
  case PopDensity
  with n have "normalize2 env body = Inl e" by simp
  then show ?thesis
    using run2_fetched[OF f[unfolded PopDensity], of w] r PopDensity
    by (simp add: sent_def)
qed

lemma filter_key_distinct:
  "distinct (map fst xs) \<Longrightarrow> (k, v) \<in> set xs \<Longrightarrow> filter (\<lambda>c. fst c = k) xs = [(k, v)]"
proof (induction xs)
  case Nil
  then show ?case by simp
next
  case (Cons x xs)
  show ?case
  proof (cases "x = (k, v)")
    case True
    with Cons.prems(1) have "k \<notin> fst ` set xs" by simp
    then have "filter (\<lambda>c. fst c = k) xs = []" by (auto simp: filter_empty_conv)
    with True show ?thesis by simp
  next
    case False
    with Cons.prems have in_xs: "(k, v) \<in> set xs" and d: "distinct (map fst xs)" by auto
    from in_xs have "k \<in> fst ` set xs" by force
    with Cons.prems(1) have "fst x \<noteq> k" by auto
    with Cons.IH[OF d in_xs] show ?thesis by simp
  qed
qed

lemma select_County:
  assumes s: "fst ` set (renames pl) \<subseteq> fst ` set raw"
  shows "\<exists>sel. select_columns (map snd (renames pl)) (rename_columns (renames pl) raw) = Inr sel
        \<and> filter (\<lambda>c. fst c = ''County'') sel
            = filter (\<lambda>c. fst c = ''County'') (rename_columns (renames pl) raw)"
proof -
  let ?R = "rename_columns (renames pl) raw"
  have present: "t \<in> fst ` set ?R" if "t \<in> set (map snd (renames pl))" for t
  proof -
    from that obtain src where st: "(src, t) \<in> set (renames pl)" by auto
    then have "src \<in> fst ` set raw" using s by force
    moreover have "relabel (renames pl) src = t" using relabel_target[OF st] by simp
    ultimately show ?thesis unfolding labels_rename by blast
  qed
  then have nomiss: "filter (\<lambda>l. l \<notin> fst ` set ?R) (map snd (renames pl)) = []"
    by (auto simp: filter_empty_conv)
  have sel: "select_columns (map snd (renames pl)) ?R
        = Inr (concat (map (\<lambda>l. filter (\<lambda>c. fst c = l) ?R) (map snd (renames pl))))"
    unfolding select_columns_def Let_def nomiss by simp
  have "filter (\<lambda>c. fst c = ''County'')
          (concat (map (\<lambda>l. filter (\<lambda>c. fst c = l) ?R) (map snd (renames pl))))
        = filter (\<lambda>c. fst c = ''County'') ?R"
    by (cases pl) (simp_all add: renames1_def renames2_def filter_empty_conv conj_commute cong: conj_cong)
  with sel show ?thesis by simp
qed

lemma normalize_ok:
  assumes p: "read_csv env body = Inr raw"
      and d: "distinct (map fst raw)"
      and s: "fst ` set (renames pl) \<subseteq> fst ` set raw"
      and c: "''County'' \<notin> fst ` set raw"
      and col: "(''region'', col) \<in> set raw"
      and ok: "str_accessor_ok col"
  shows "\<exists>df. normalize pl env body = Inr df
            \<and> region_column df = map (str_cell (clean_name (ignore_case pl))) col"
proof -
  let ?m = "renames pl"
  let ?g = "\<lambda>c. (relabel ?m (fst c), snd c)"
  let ?col' = "map (str_cell (clean_name (ignore_case pl))) col"
  let ?h = "\<lambda>c. if fst c = ''County'' then (fst c, ?col') else c"
  from select_County[OF s] obtain sel where
    sel: "select_columns (map snd ?m) (rename_columns ?m raw) = Inr sel"
    and fc: "filter (\<lambda>c. fst c = ''County'') sel
             = filter (\<lambda>c. fst c = ''County'') (rename_columns ?m raw)" by blast
  have "filter (\<lambda>c. fst c = ''County'') (rename_columns ?m raw)
        = map ?g (filter (\<lambda>c. relabel ?m (fst c) = ''County'') raw)"
    by (simp add: rename_columns_relabel filter_map comp_def)
  also have "filter (\<lambda>c. relabel ?m (fst c) = ''County'') raw = filter (\<lambda>c. fst c = ''region'') raw"
  proof (intro filter_cong refl)
    fix x assume "x \<in> set raw"
    then have "fst x \<in> fst ` set raw" by simp
    with c have "fst x \<noteq> ''County''" by metis
    then show "(relabel ?m (fst x) = ''County'') = (fst x = ''region'')"
      by (simp add: relabel_County)
  qed
  also have "\<dots> = [(''region'', col)]" using d col by (rule filter_key_distinct)
  finally have one: "filter (\<lambda>c. fst c = ''County'') sel = [(''County'', col)]"
    using fc by (simp add: relabel_County)
  have cc: "clean_county (ignore_case pl) sel = Inr (map ?h sel)"
    using ok by (simp add: clean_county_def one clean_column_eq and_then_def)
  have "filter (\<lambda>c. fst c = ''County'') (map ?h sel) = map ?h (filter (\<lambda>c. fst c = ''County'') sel)"
    by (simp add: filter_map comp_def if_distrib[of fst] cong: if_cong)
  then have "region_column (map ?h sel) = ?col'"
    by (simp add: region_column_def one)
  moreover have "normalize pl env body = Inr (map ?h sel)"
    by (simp add: normalize_unfold p sel cc and_then_def)
  ultimately show ?thesis by blast
qed


section \<open>Lemmas about the concrete runs\<close>

lemma fetched_scenario:
  assumes "\<not> (400 \<le> st \<and> st < 600)"
  shows "fetched pl (scenario_env (query_config fmt tid) (Response st body))
           (query_payload fmt) (JStr tid) body"
  using assms
  by (simp add: fetched_def load_config_def scenario_env_def query_config_def and_then_def)

lemma format_query_payload: "response_format (query_payload fmt) = Inr (lower fmt)"
  by (simp add: response_format_def query_payload_def and_then_def)

lemma lower_csv: "lower ''csv'' = ''csv''" "lower ''px'' = ''px''" "lower ''xml'' = ''xml''"
  by code_simp+

lemma parsed_body1:
  "read_csv_plain body1 =
     Inr [(''region'', [Str ''01 Stockholm county'']), (''Percent 2025K1'', [Num ''45.2'']),
          (''Margin of error '' @ [CHR 0xB1] @ '' percent 2025K1'', [Num ''1.1''])]"
  by code_simp

lemma cleaned_stockholm:
  "map (str_cell (clean_name False)) [Str ''01 Stockholm county''] = [Str ''Stockholm'']"
  by code_simp

lemma parsed_body_area:
  "read_csv_plain body_area =
     Inr [(''area'', [Str ''Stockholm'']), (''Population density per sq. km 2024'', [Num ''385.2''])]"
  by code_simp

section \<open>Properties stated by the specification\<close>

text \<open>
  Claim C1, as the scripts have it. Take a run of either script that asks for csv, whose
  parsed table has distinct labels, holds every expected source column and no column
  already labelled \<^verbatim>\<open>County\<close>, and whose \<^verbatim>\<open>region\<close> column holds text. Then the run ends
  without an exception and writes a table whose County cells are the fetched cells after
  the three steps. Every such value is free of leading and trailing whitespace. When the
  fetched value is digits, whitespace, a name, and then nothing or a whitespace and the
  word, where the name is not empty, has no whitespace around it and does not itself end
  in a whitespace and the word, the written value is that name.
\<close>

theorem region_values_cleaned:
  assumes f: "fetched pl env payload tid body"
      and r: "response_format payload = Inr ''csv''"
      and p: "read_csv env body = Inr raw"
      and d: "distinct (map fst raw)"
      and s: "fst ` set (renames pl) \<subseteq> fst ` set raw"
      and c: "''County'' \<notin> fst ` set raw"
      and col: "(''region'', col) \<in> set raw"
      and ok: "str_accessor_ok col"
  shows "(\<exists>df. normalize pl env body = Inr df
            \<and> fst (run pl env w) = None
            \<and> files (snd (run pl env w)) (csv_path pl) = Some (to_csv df)
            \<and> region_column df = map (str_cell (clean_name (ignore_case pl))) col)
       \<and> (\<forall>v. no_surrounding_space (clean_name (ignore_case pl) v))
       \<and> (\<forall>ds ws name suf.
            ds \<noteq> [] \<and> list_all is_digit ds \<and> ws \<noteq> [] \<and> list_all is_space ws
            \<and> name \<noteq> [] \<and> no_surrounding_space name \<and> \<not> ends_county (ignore_case pl) name
            \<and> (suf = [] \<or> (\<exists>sp cty. suf = sp # cty \<and> is_space sp
                   \<and> (if ignore_case pl then lower cty else cty) = ''county''))
            \<longrightarrow> clean_name (ignore_case pl) (ds @ ws @ name @ suf) = name)"
proof -
  from normalize_ok[OF p d s c col ok] obtain df where
    n: "normalize pl env body = Inr df"
    and rc: "region_column df = map (str_cell (clean_name (ignore_case pl))) col" by blast
  from run_csv[OF f r n, of w] n rc have 1: "\<exists>df. normalize pl env body = Inr df
            \<and> fst (run pl env w) = None
            \<and> files (snd (run pl env w)) (csv_path pl) = Some (to_csv df)
            \<and> region_column df = map (str_cell (clean_name (ignore_case pl))) col"
    by simp
  have 2: "\<forall>v. no_surrounding_space (clean_name (ignore_case pl) v)"
    by (simp add: clean_name_def strip_no_surrounding_space)
  have 3: "\<forall>ds ws name suf.
            ds \<noteq> [] \<and> list_all is_digit ds \<and> ws \<noteq> [] \<and> list_all is_space ws
            \<and> name \<noteq> [] \<and> no_surrounding_space name \<and> \<not> ends_county (ignore_case pl) name
            \<and> (suf = [] \<or> (\<exists>sp cty. suf = sp # cty \<and> is_space sp
                   \<and> (if ignore_case pl then lower cty else cty) = ''county''))
            \<longrightarrow> clean_name (ignore_case pl) (ds @ ws @ name @ suf) = name"
    using clean_name_shape by blast
  from 1 2 3 show ?thesis by blast
qed

theorem region_values_cleaned_witness:
  "\<exists>df. normalize DirectEstimate env_csv1 body1 = Inr df
       \<and> fst (run DirectEstimate env_csv1 world0) = None
       \<and> files (snd (run DirectEstimate env_csv1 world0)) (csv_path DirectEstimate) = Some (to_csv df)
       \<and> region_column df = [Str ''Stockholm'']"
proof -
  let ?raw = "[(''region'', [Str ''01 Stockholm county'']), (''Percent 2025K1'', [Num ''45.2'']),
          (''Margin of error '' @ [CHR 0xB1] @ '' percent 2025K1'', [Num ''1.1''])]"
  have f: "fetched DirectEstimate env_csv1 (query_payload ''csv'') (JStr ''AM0401N1'') body1"
    unfolding env_csv1_def by (rule fetched_scenario) simp
  have r: "response_format (query_payload ''csv'') = Inr ''csv''"
    by (simp add: format_query_payload lower_csv)
  have p: "read_csv env_csv1 body1 = Inr ?raw"
    using parsed_body1 by (simp add: env_csv1_def scenario_env_def)
  have d: "distinct (map fst ?raw)" by simp
  have s: "fst ` set (renames DirectEstimate) \<subseteq> fst ` set ?raw" by (simp add: renames1_def)
  have c: "''County'' \<notin> fst ` set ?raw" by simp
  have col: "(''region'', [Str ''01 Stockholm county'']) \<in> set ?raw" by simp
  have ok: "str_accessor_ok [Str ''01 Stockholm county'']" by (simp add: str_accessor_ok_def)
  from region_values_cleaned[OF f r p d s c col ok, of world0] show ?thesis
    by (simp only: cleaned_stockholm ignore_case.simps)
qed

text \<open>
  The claim as the specification states it fails: a value with a blank after the word
  keeps the word, and a value with a second number after the code keeps that number.
\<close>

theorem trailing_blank_keeps_county:
  "fst (run DirectEstimate env_blank world0) = None
   \<and> files (snd (run DirectEstimate env_blank world0)) ''data/direct_estimates.csv''
       = Some (records_text [''County,Percent_2025K1,Percent_2025K1_me'',
                             ''Stockholm county,45.2,1.1'', ''04 Uppsala,44.3,1.3''])
   \<and> ends_county False ''Stockholm county'' \<and> begins_code ''04 Uppsala''"
  by code_simp



text \<open>
  Claim C3. A run of the direct-estimate script that asks for csv and receives the one-row
  body of the scenario, parsed as plain CSV, ends without an exception and writes
  \<^verbatim>\<open>data/direct_estimates.csv\<close> with the header
  \<^verbatim>\<open>County,Percent_2025K1,Percent_2025K1_me\<close> and the row \<^verbatim>\<open>Stockholm,45.2,1.1\<close>.
\<close>

theorem direct_estimate_scenario:
  assumes f: "fetched DirectEstimate env payload tid body1"
      and r: "response_format payload = Inr ''csv''"
      and p: "read_csv env body1 = read_csv_plain body1"
  shows "fst (run DirectEstimate env w) = None
         \<and> files (snd (run DirectEstimate env w)) ''data/direct_estimates.csv''
             = Some (records_text [''County,Percent_2025K1,Percent_2025K1_me'',
                                   ''Stockholm,45.2,1.1''])"
proof -
  have "normalize DirectEstimate env body1 = Inr table1"
    using plain_normalize_body1 by (simp add: normalize1_def p)
  from run_csv[OF f r this, of w] show ?thesis by (simp add: to_csv_table1)
qed

theorem direct_estimate_scenario_witness:
  "fst (run DirectEstimate env_csv1 world0) = None
   \<and> files (snd (run DirectEstimate env_csv1 world0)) ''data/direct_estimates.csv''
       = Some (records_text [''County,Percent_2025K1,Percent_2025K1_me'', ''Stockholm,45.2,1.1''])"
proof -
  have f: "fetched DirectEstimate env_csv1 (query_payload ''csv'') (JStr ''AM0401N1'') body1"
    unfolding env_csv1_def by (rule fetched_scenario) simp
  have r: "response_format (query_payload ''csv'') = Inr ''csv''"
    by (simp add: format_query_payload lower_csv)
  have p: "read_csv env_csv1 body1 = read_csv_plain body1"
    by (simp add: env_csv1_def scenario_env_def)
  from direct_estimate_scenario[OF f r p, of world0] show ?thesis .
qed

text \<open>
  Claim C4. When the configuration file is missing, is no valid JSON, or does not hold
  both required fields, the run of either script ends with an exception of the class
  \<open>ConfigError\<close> and leaves the world as it was: no request has been sent, nothing has been
  written or printed.
\<close>

theorem config_error_before_request:
  assumes "lacks_required (config env (config_path pl))"
  shows "\<exists>e. run pl env w = (Some e, w) \<and> error_class_of e = ConfigError"
proof -
  from load_config_lacks[OF assms] obtain e where
    l: "load_config env (config_path pl) = Inl e"
    and e: "e = FileNotFoundError (config_path pl) \<or> e = JSONDecodeError \<or> e = TypeError
          \<or> e = KeyError ''queryObj'' \<or> e = KeyError ''tableIdForQuery''" by blast
  have c: "error_class_of e = ConfigError" using e by (cases pl) auto
  have "run pl env w = (Some e, w)" using l by (cases pl) (simp_all add: run1_def run2_def)
  with c show ?thesis by blast
qed

theorem config_error_before_request_witness:
  "lacks_required (config env_no_table (config_path PopDensity))
   \<and> (\<exists>e. run PopDensity env_no_table world0 = (Some e, world0) \<and> error_class_of e = ConfigError)"
proof -
  have l: "lacks_required (config env_no_table (config_path PopDensity))"
    by (simp add: env_no_table_def scenario_env_def)
  from config_error_before_request[OF l, of world0] l show ?thesis by simp
qed

text \<open>
  Claim C5, as the scripts have it. When the configuration loads and the request gets no
  answer or an answer with a status code from 400 to 599, the run of either script ends
  with an exception of the class \<open>TransportError\<close>, and the world differs from the one
  before only by the request sent: no file and no directory is written.
\<close>

theorem transport_error_writes_nothing:
  assumes l: "load_config env (config_path pl) = Inr (payload, tid)"
      and p: "post env (base_url pl @ format_value env tid) payload = ConnectionFailed
              \<or> (\<exists>st body. post env (base_url pl @ format_value env tid) payload = Response st body
                     \<and> 400 \<le> st \<and> st < 600)"
  shows "\<exists>e. error_class_of e = TransportError
            \<and> run pl env w = (Some e, w\<lparr>requests := requests w @ [(base_url pl @ format_value env tid, payload)]\<rparr>)"
proof -
  let ?url = "base_url pl @ format_value env tid"
  let ?w = "w\<lparr>requests := requests w @ [(?url, payload)]\<rparr>"
  from p have "\<exists>e. error_class_of e = TransportError \<and> fetch env ?url payload w = (Inl e, ?w)"
    by (auto simp: fetch_def Let_def)
  then obtain e where e: "error_class_of e = TransportError" "fetch env ?url payload w = (Inl e, ?w)"
    by blast
  have "run pl env w = (Some e, ?w)"
    using l e(2) by (cases pl) (simp_all add: run1_def run2_def)
  with e(1) show ?thesis by blast
qed

theorem transport_error_writes_nothing_witness:
  "\<exists>e. error_class_of e = TransportError
       \<and> fst (run DirectEstimate env_404 world0) = Some e
       \<and> files (snd (run DirectEstimate env_404 world0)) = files world0"
proof -
  have l: "load_config env_404 (config_path DirectEstimate) = Inr (query_payload ''px'', JStr ''AM0401N1'')"
    by (simp add: env_404_def scenario_env_def query_config_def load_config_def and_then_def)
  have p: "post env_404 (base_url DirectEstimate @ format_value env_404 (JStr ''AM0401N1'')) (query_payload ''px'') = ConnectionFailed
     \<or> (\<exists>st body. post env_404 (base_url DirectEstimate @ format_value env_404 (JStr ''AM0401N1'')) (query_payload ''px'') = Response st body
            \<and> 400 \<le> st \<and> st < 600)"
    by (simp add: env_404_def scenario_env_def)
  from transport_error_writes_nothing[OF l p, of world0] show ?thesis by auto
qed

text \<open>
  The claim as the specification states it fails for a status code that is neither 2xx
  nor an error for \<^verbatim>\<open>raise_for_status\<close>: with the status 304 the px branch writes its
  file.
\<close>

theorem status_304_writes_file:
  "fst (run DirectEstimate env_304 world0) = None
   \<and> files world0 ''data/AM0401N1.px'' = None
   \<and> files (snd (run DirectEstimate env_304 world0)) ''data/AM0401N1.px'' = Some ''PXDATA''"
  by code_simp

text \<open>
  Claim C6, as the scripts have it. In a run of either script that asks for csv, when the
  parsed table has, for one of the expected columns, neither the source label nor the
  label that the rename gives it, the run ends with the \<^verbatim>\<open>KeyError\<close> of the selection,
  of the class \<open>SchemaError\<close>, naming that label, and writes no file.
\<close>

theorem missing_column_schema_error:
  assumes f: "fetched pl env payload tid body"
      and r: "response_format payload = Inr ''csv''"
      and p: "read_csv env body = Inr df"
      and m: "(src, tgt) \<in> set (renames pl)" "src \<notin> fst ` set df" "tgt \<notin> fst ` set df"
  shows "\<exists>ls. fst (run pl env w) = Some (LabelsNotInIndex ls) \<and> tgt \<in> set ls
              \<and> error_class_of (LabelsNotInIndex ls) = SchemaError
              \<and> files (snd (run pl env w)) = files w"
proof -
  have "tgt \<notin> fst ` set (rename_columns (renames pl) df)"
  proof
    assume "tgt \<in> fst ` set (rename_columns (renames pl) df)"
    then obtain l where l: "l \<in> fst ` set df" "relabel (renames pl) l = tgt"
      unfolding labels_rename by blast
    from l(2) have "l = src \<or> l = tgt" by (simp add: relabel_target[OF m(1)])
    with l(1) m(2,3) show False by blast
  qed
  moreover have "tgt \<in> set (map snd (renames pl))" using m(1) by force
  ultimately obtain ms where
    s: "select_columns (map snd (renames pl)) (rename_columns (renames pl) df) = Inl (LabelsNotInIndex ms)"
    and t: "tgt \<in> set ms"
    using select_missing by blast
  have "normalize pl env body = Inl (LabelsNotInIndex ms)"
    by (simp add: normalize_unfold p s and_then_def)
  from run_csv_error[OF f r this, of w] t show ?thesis by auto
qed

theorem missing_column_schema_error_witness:
  "\<exists>ls. fst (run PopDensity env_area world0) = Some (LabelsNotInIndex ls) \<and> ''County'' \<in> set ls
        \<and> error_class_of (LabelsNotInIndex ls) = SchemaError
        \<and> files (snd (run PopDensity env_area world0)) = files world0"
proof -
  let ?df = "[(''area'', [Str ''Stockholm'']), (''Population density per sq. km 2024'', [Num ''385.2''])]"
  have f: "fetched PopDensity env_area (query_payload ''csv'') (JStr ''BE0101U1'') body_area"
    unfolding env_area_def by (rule fetched_scenario) simp
  have r: "response_format (query_payload ''csv'') = Inr ''csv''"
    by (simp add: format_query_payload lower_csv)
  have p: "read_csv env_area body_area = Inr ?df"
    using parsed_body_area by (simp add: env_area_def scenario_env_def)
  have m: "(''region'', ''County'') \<in> set (renames PopDensity)" by (simp add: renames2_def)
  have a: "''region'' \<notin> fst ` set ?df" "''County'' \<notin> fst ` set ?df" by simp_all
  from missing_column_schema_error[OF f r p m a, of world0] show ?thesis .
qed

text \<open>
  The claim as the specification states it fails: a table without the source column
  \<^verbatim>\<open>region\<close> whose header already reads \<^verbatim>\<open>County\<close> passes the selection and is written.
\<close>

theorem county_header_accepted:
  "read_csv env_county body_county =
     Inr [(''County'', [Str ''Stockholm'']), (''Percent 2025K1'', [Num ''45.2'']),
          (''Margin of error '' @ [CHR 0xB1] @ '' percent 2025K1'', [Num ''1.1''])]
   \<and> fst (run DirectEstimate env_county world0) = None
   \<and> files (snd (run DirectEstimate env_county world0)) ''data/direct_estimates.csv''
       = Some (records_text [''County,Percent_2025K1,Percent_2025K1_me'', ''Stockholm,45.2,1.1''])"
  by code_simp

text \<open>
  Claim C7. When the payload declares a format whose lower-case form is neither
  \<^verbatim>\<open>csv\<close> nor \<^verbatim>\<open>px\<close>, a run of either script that got its response ends without an
  exception, writes no file, and prints the warning line and the raw body.
\<close>

theorem unrecognized_format_prints_body:
  assumes "fetched pl env payload tid body"
      and "payload = JObj kvs" "map_of kvs ''response'' = Some (JObj rs)"
          "map_of rs ''format'' = Some (JStr f)"
      and "lower f \<noteq> ''csv''" "lower f \<noteq> ''px''"
  shows "fst (run pl env w) = None \<and> files (snd (run pl env w)) = files w
         \<and> stdout (snd (run pl env w)) = stdout w @ [NotRecognized, RawText body]"
proof -
  have "response_format payload = Inr (lower f)"
    using assms(2-4) by (simp add: response_format_def and_then_def)
  from run_fallback[OF assms(1) this assms(5,6)] show ?thesis .
qed

theorem unrecognized_format_prints_body_witness:
  "lower ''xml'' \<noteq> ''csv'' \<and> lower ''xml'' \<noteq> ''px''
   \<and> fst (run PopDensity env_xml world0) = None
   \<and> files (snd (run PopDensity env_xml world0)) = files world0
   \<and> stdout (snd (run PopDensity env_xml world0)) = stdout world0 @ [NotRecognized, RawText ''<table/>'']"
proof -
  have f: "fetched PopDensity env_xml (query_payload ''xml'') (JStr ''BE0101N1'') ''<table/>''"
    unfolding env_xml_def by (rule fetched_scenario) simp
  have p: "query_payload ''xml'' = JObj [(''query'', JArr []), (''response'', JObj [(''format'', JStr ''xml'')])]"
    by (simp add: query_payload_def)
  have a: "map_of [(''query'', JArr []), (''response'', JObj [(''format'', JStr ''xml'')])] ''response''
           = Some (JObj [(''format'', JStr ''xml'')])" by simp
  have b: "map_of [(''format'', JStr ''xml'')] ''format'' = Some (JStr ''xml'')" by simp
  have n: "lower ''xml'' \<noteq> ''csv''" "lower ''xml'' \<noteq> ''px''" by (simp_all add: lower_csv)
  from unrecognized_format_prints_body[OF f p a b n, of world0] n show ?thesis by simp
qed



text \<open>
  Claim C9. When the payload is an object without the key \<^verbatim>\<open>response\<close>, or its
  \<^verbatim>\<open>response\<close> is an object without the key \<^verbatim>\<open>format\<close>, the format is the empty
  text, and a run of either script that got its response takes the last branch: no
  exception, no file, the warning line and the raw body printed.
\<close>

theorem absent_format_falls_back:
  assumes "fetched pl env payload tid body"
      and "payload = JObj kvs"
      and "map_of kvs ''response'' = None
           \<or> (\<exists>rs. map_of kvs ''response'' = Some (JObj rs) \<and> map_of rs ''format'' = None)"
  shows "response_format payload = Inr [] \<and> fst (run pl env w) = None
         \<and> files (snd (run pl env w)) = files w
         \<and> stdout (snd (run pl env w)) = stdout w @ [NotRecognized, RawText body]"
proof -
  have r: "response_format payload = Inr []"
    using assms(2,3) by (auto simp: response_format_def and_then_def lower_def)
  from run_fallback[OF assms(1) r, of w] r show ?thesis by simp
qed

theorem absent_format_falls_back_witness:
  "response_format (JObj [(''query'', JArr [])]) = Inr []
   \<and> fst (run DirectEstimate env_no_format world0) = None
   \<and> files (snd (run DirectEstimate env_no_format world0)) = files world0
   \<and> stdout (snd (run DirectEstimate env_no_format world0)) = stdout world0 @ [NotRecognized, RawText ''raw'']"
proof -
  have f: "fetched DirectEstimate env_no_format (JObj [(''query'', JArr [])]) (JStr ''BE0101N1'') ''raw''"
    by (simp add: fetched_def load_config_def env_no_format_def scenario_env_def and_then_def)
  have a: "map_of [(''query'', JArr [])] ''response'' = None
           \<or> (\<exists>rs. map_of [(''query'', JArr [])] ''response'' = Some (JObj rs) \<and> map_of rs ''format'' = None)"
    by simp
  from absent_format_falls_back[OF f refl a, of world0] show ?thesis .
qed



end
